theory Spec2Isabelle
  imports Main
begin

section \<open>Python values and exceptions\<close>

text \<open>
  The command handlers of \<^verbatim>\<open>cogs/modmail.py\<close> are coroutines of a cog class. Each one
  reads and mutates attributes of the bot object, awaits \<^verbatim>\<open>config.update()\<close> and sends
  embeds. A handler is modelled as a function from the bot to an outcome and the bot
  afterwards: the outcome is \<open>Inr ()\<close> when the coroutine returns and \<open>Inl e\<close> when it raises
  \<open>e\<close>; mutations made before a raise stay in the returned bot, as in Python.
  The permission checks and the other decorators run before a handler is entered and
  are not part of it. What the module takes from elsewhere (gettext, the embed for a
  name that is not found, the user cache, \<^verbatim>\<open>escape_markdown\<close>, \<^verbatim>\<open>isoformat\<close>) is a
  parameter of the handlers that use it. Strings are lists of characters, and \<open>length\<close>
  is \<^verbatim>\<open>len\<close>.

  \<open>Unmodelled\<close> is not a Python exception: \<open>format\<close> below gives it for replacement fields
  outside the fragment of \<^verbatim>\<open>str.format\<close> that is modelled.
\<close>

datatype exn =
    KeyError string
  | IndexError
  | ValueError
  | NameError string
  | UnboundLocalError string
  | BadArgument string
  | MissingRequiredArgument string
  | AttributeError string
  | Unmodelled

subsection \<open>Dictionaries\<close>

text \<open>
  A Python dict is an association list in insertion order. \<open>dict_in\<close> is \<^verbatim>\<open>k in d\<close>,
  \<open>dict_get\<close> is \<^verbatim>\<open>d.get(k)\<close>, \<open>dict_set\<close> is \<^verbatim>\<open>d[k] = v\<close> (an existing key keeps its
  place, a new key goes last) and \<open>dict_pop\<close> is \<^verbatim>\<open>d.pop(k)\<close> on a key that is present.
\<close>

type_synonym ('k, 'v) dict = "('k \<times> 'v) list"

definition dict_in :: "'k \<Rightarrow> ('k, 'v) dict \<Rightarrow> bool" where
  "dict_in k d = (k \<in> fst ` set d)"

definition dict_get :: "('k, 'v) dict \<Rightarrow> 'k \<Rightarrow> 'v option" where
  "dict_get d k = map_of d k"

fun dict_set :: "('k, 'v) dict \<Rightarrow> 'k \<Rightarrow> 'v \<Rightarrow> ('k, 'v) dict" where
  "dict_set [] k v = [(k, v)]"
| "dict_set ((k', v') # d) k v =
     (if k' = k then (k, v) # d else (k', v') # dict_set d k v)"

definition dict_pop :: "('k, 'v) dict \<Rightarrow> 'k \<Rightarrow> ('k, 'v) dict" where
  "dict_pop d k = filter (\<lambda>kv. fst kv \<noteq> k) d"

subsection \<open>\<^verbatim>\<open>str.format\<close> with keyword arguments\<close>

text \<open>
  Every call of \<^verbatim>\<open>.format\<close> in the module passes keyword arguments only, all of them
  strings. The template is scanned from left to right: \<^verbatim>\<open>{{\<close> and \<^verbatim>\<open>}}\<close> are literal braces,
  a single \<^verbatim>\<open>}\<close> or a \<^verbatim>\<open>{\<close> that is never closed raises ValueError, and \<^verbatim>\<open>{field}\<close> is
  replaced by the keyword argument named by the part of the field before its first dot.
  An empty or numeric name refers to the positional arguments, of which there are none
  (IndexError); a name that is no keyword raises KeyError, before any attribute of it
  is looked up. The first error met ends the scan.

  Attribute or index lookups on a found argument, conversions (\<^verbatim>\<open>!r\<close>) and format
  specifications (\<^verbatim>\<open>:>10\<close>) occur in no template of the module; they give \<open>Unmodelled\<close>.
\<close>

type_synonym kwargs = "(string \<times> string) list"

definition is_digit :: "char \<Rightarrow> bool" where
  "is_digit c = (c \<in> set ''0123456789'')"

definition field_value :: "kwargs \<Rightarrow> string \<Rightarrow> exn + string" where
  "field_value kw field =
     (if list_ex (\<lambda>c. c \<in> set ''{[!:'') field then Inl Unmodelled
      else
        let arg_name = takeWhile (\<lambda>c. c \<noteq> CHR ''.'') field;
            rest = dropWhile (\<lambda>c. c \<noteq> CHR ''.'') field
        in if list_all is_digit arg_name then Inl IndexError
           else case map_of kw arg_name of
                  None \<Rightarrow> Inl (KeyError arg_name)
                | Some v \<Rightarrow> if rest = [] then Inr v else Inl Unmodelled)"

text \<open>
  \<open>scan kw field cs\<close>: \<open>field\<close> is \<open>None\<close> in literal text and \<open>Some f\<close> inside a
  replacement field whose characters read so far are \<open>f\<close>, last one first.
\<close>

fun scan :: "kwargs \<Rightarrow> string option \<Rightarrow> string \<Rightarrow> exn + string" where
  "scan kw None [] = Inr []"
| "scan kw (Some f) [] = Inl ValueError"
| "scan kw (Some f) (c # cs) =
     (if c = CHR ''}'' then
        (case field_value kw (rev f) of
           Inl e \<Rightarrow> Inl e
         | Inr v \<Rightarrow> (case scan kw None cs of Inl e \<Rightarrow> Inl e | Inr out \<Rightarrow> Inr (v @ out)))
      else scan kw (Some (c # f)) cs)"
| "scan kw None [c] =
     (if c = CHR ''{'' then Inl ValueError
      else if c = CHR ''}'' then Inl ValueError
      else Inr [c])"
| "scan kw None (c # c' # cs) =
     (if c = CHR ''{'' then
        (if c' = CHR ''{'' then
           (case scan kw None cs of Inl e \<Rightarrow> Inl e | Inr out \<Rightarrow> Inr (CHR ''{'' # out))
         else scan kw (Some []) (c' # cs))
      else if c = CHR ''}'' then
        (if c' = CHR ''}'' then
           (case scan kw None cs of Inl e \<Rightarrow> Inl e | Inr out \<Rightarrow> Inr (CHR ''}'' # out))
         else Inl ValueError)
      else (case scan kw None (c' # cs) of Inl e \<Rightarrow> Inl e | Inr out \<Rightarrow> Inr (c # out)))"

definition format :: "string \<Rightarrow> kwargs \<Rightarrow> exn + string" where
  "format template kw = scan kw None template"

subsection \<open>Names\<close>

text \<open>
  The module calls \<^verbatim>\<open>_\<close> (gettext) without importing it: the application installs it
  among the builtins. It is a parameter \<open>tr\<close> of every handler that translates a message.
  \<open>module_globals\<close> lists the names the module itself binds at top level. A global name
  that is neither \<^verbatim>\<open>_\<close> nor bound by the module raises NameError when it is evaluated.

  A name that is assigned anywhere in a function body is local to the whole body, and
  reading it before the assignment has run raises UnboundLocalError: \<open>call_local\<close> takes
  the current content of the local variable, \<open>None\<close> while it is unbound.
\<close>

definition module_globals :: "string list" where
  "module_globals =
     [''asyncio'', ''datetime'', ''zip_longest'', ''Optional'', ''Union'', ''SimpleNamespace'',
      ''discord'', ''commands'', ''escape_markdown'', ''escape_mentions'', ''parser'',
      ''duration'', ''checks'', ''PermissionLevel'', ''getLogger'', ''EmbedPaginatorSession'',
      ''UserFriendlyTime'', ''human_timedelta'', ''format_preview'', ''User'',
      ''create_not_found_embed'', ''format_description'', ''trigger_typing'', ''logger'',
      ''Modmail'', ''setup'']"

definition call_global :: "(string \<Rightarrow> string) \<Rightarrow> string \<Rightarrow> string \<Rightarrow> exn + string" where
  "call_global tr name arg =
     (if name = ''_'' then Inr (tr arg)
      else if name \<in> set module_globals then Inl Unmodelled
      else Inl (NameError name))"

definition call_local :: "(string \<Rightarrow> string) option \<Rightarrow> string \<Rightarrow> string \<Rightarrow> exn + string" where
  "call_local var name arg =
     (case var of None \<Rightarrow> Inl (UnboundLocalError name) | Some f \<Rightarrow> Inr (f arg))"

section \<open>The bot\<close>

datatype colour = main_color | error_color

record embed =
  title :: "string option"
  description :: string
  color :: colour
  footer :: "string option"

text \<open>\<open>author\<close> is \<^verbatim>\<open>ctx.author\<close>. A \<open>user\<close> is what the \<^verbatim>\<open>User\<close> converter yields: an
  object that always has an id and may lack \<^verbatim>\<open>mention\<close> and \<^verbatim>\<open>name\<close> (the handlers read
  them with \<^verbatim>\<open>getattr\<close> and a default).\<close>

record author =
  author_name :: string
  author_discriminator :: string
  author_mention :: string

record user =
  uid :: int
  mention :: "string option"
  uname :: "string option"
  is_bot :: bool

record thread =
  thread_id :: int
  recipient :: user
  creator :: author
  category :: "string option"
  channel_mention :: string

record ctx =
  ctx_author :: author
  ctx_channel :: string
  ctx_thread :: "thread option"

datatype message =
    Send embed
  | ChannelSend string embed
  | SendHelp
  | Paginator "embed list"

text \<open>
  The attributes of the bot that the handlers read and write. \<open>updates\<close> counts the
  completed calls of \<^verbatim>\<open>config.update()\<close>, \<open>sent\<close> is everything sent so far: \<open>Send\<close> is
  \<^verbatim>\<open>ctx.send(embed=...)\<close>, \<open>ChannelSend c\<close> a send to the channel whose mention is \<open>c\<close>,
  \<open>SendHelp\<close> is \<^verbatim>\<open>ctx.send_help(ctx.command)\<close> and \<open>Paginator\<close> a run of an
  \<^verbatim>\<open>EmbedPaginatorSession\<close> over the embeds.
\<close>

record bot =
  snippets :: "(string, string) dict"
  aliases :: "(string, string) dict"
  notification_squad :: "(string, string list) dict"
  subscriptions :: "(string, string list) dict"
  blocked_users :: "(string, string) dict"
  blocked_whitelisted_users :: "string list"
  dm_disabled :: int
  threads :: "thread list"
  updates :: nat
  sent :: "message list"

type_synonym outcome = "(exn + unit) \<times> bot"

definition config_update :: "bot \<Rightarrow> bot" where
  "config_update b = b\<lparr>updates := Suc (updates b)\<rparr>"

definition send :: "embed \<Rightarrow> bot \<Rightarrow> outcome" where
  "send e b = (Inr (), b\<lparr>sent := sent b @ [Send e]\<rparr>)"

definition raise :: "exn \<Rightarrow> bot \<Rightarrow> outcome" where
  "raise e b = (Inl e, b)"

text \<open>
  Most handlers end by building one embed around a formatted text and sending it.
  \<open>reply r mk b\<close> is that end: \<open>r\<close> is the result of formatting the text; when it is an
  exception the handler raises it, otherwise the embed \<open>mk d\<close> around the text \<open>d\<close> is sent.
\<close>

definition reply :: "exn + string \<Rightarrow> (string \<Rightarrow> embed) \<Rightarrow> bot \<Rightarrow> outcome" where
  "reply r mk b = (case r of Inl e \<Rightarrow> raise e b | Inr d \<Rightarrow> send (mk d) b)"

section \<open>Snippets\<close>

text \<open>\<open>nf\<close> is \<^verbatim>\<open>create_not_found_embed\<close> of \<^verbatim>\<open>core.utils\<close>, called with the name, the
  keys of the snippets and the word \<^verbatim>\<open>"Snippet"\<close>.\<close>

type_synonym not_found = "string \<Rightarrow> string list \<Rightarrow> string \<Rightarrow> embed"

definition snippet_add :: "(string \<Rightarrow> string) \<Rightarrow> string \<Rightarrow> string \<Rightarrow> bot \<Rightarrow> outcome" where
  "snippet_add tr name val b =
     (if dict_in name (snippets b) then
        reply (format (tr ''Snippet `{name}` already exists.'') [(''name'', name)])
          (\<lambda>d. \<lparr>title = Some (tr ''Error''), description = d, color = error_color,
                footer = None\<rparr>) b
      else if dict_in name (aliases b) then
        reply (format (tr ''An alias with the same name already exists: `{name}`.'')
                 [(''name'', name)])
          (\<lambda>d. \<lparr>title = Some (tr ''Error''), description = d, color = error_color,
                footer = None\<rparr>) b
      else if length name > 120 then
        send \<lparr>title = Some (tr ''Error''),
              description = tr ''Snippet names cannot be longer than 120 characters.'',
              color = error_color, footer = None\<rparr> b
      else
        send \<lparr>title = Some ''Added snippet'', description = ''Successfully created snippet.'',
              color = main_color, footer = None\<rparr>
          (config_update (b\<lparr>snippets := dict_set (snippets b) name val\<rparr>)))"

text \<open>In \<^verbatim>\<open>snippet_remove\<close> the embed, with its formatted text, is built before the
  snippet is popped.\<close>

definition snippet_remove :: "(string \<Rightarrow> string) \<Rightarrow> not_found \<Rightarrow> string \<Rightarrow> bot \<Rightarrow> outcome" where
  "snippet_remove tr nf name b =
     (if dict_in name (snippets b) then
        (case format (tr ''Snippet `{name}` is now deleted.'') [(''name'', name)] of
           Inl e \<Rightarrow> raise e b
         | Inr d \<Rightarrow>
             send \<lparr>title = Some (tr ''Removed snippet''), description = d,
                   color = main_color, footer = None\<rparr>
               (config_update (b\<lparr>snippets := dict_pop (snippets b) name\<rparr>)))
      else send (nf name (map fst (snippets b)) ''Snippet'') b)"

text \<open>
  In \<^verbatim>\<open>snippet_edit\<close> the value is stored and the configuration updated first; then the
  embed is built, its description by \<^verbatim>\<open>f_('...')\<close>. The name \<^verbatim>\<open>f_\<close> is looked up as a
  global, like every name that the function body does not assign.
\<close>

definition snippet_edit ::
  "(string \<Rightarrow> string) \<Rightarrow> not_found \<Rightarrow> string \<Rightarrow> string \<Rightarrow> bot \<Rightarrow> outcome" where
  "snippet_edit tr nf name val b =
     (if dict_in name (snippets b) then
        reply (call_global tr ''f_'' ''`{name}` will now send \"{value}\".'')
          (\<lambda>d. \<lparr>title = Some (tr ''Edited snippet''), description = d, color = main_color,
                footer = None\<rparr>)
          (config_update (b\<lparr>snippets := dict_set (snippets b) name val\<rparr>))
      else send (nf name (map fst (snippets b)) ''Snippet'') b)"

section \<open>Strings of the standard library\<close>

text \<open>\<open>str_int\<close> is \<^verbatim>\<open>str\<close> on an integer. \<open>int_of_str\<close> is \<^verbatim>\<open>int\<close> on the strings that \<^verbatim>\<open>str\<close>
  writes; the other spellings that Python's \<^verbatim>\<open>int\<close> accepts or rejects give \<open>Unmodelled\<close>.\<close>

fun str_nat :: "nat \<Rightarrow> string" where
  "str_nat n =
     (if n < 10 then [''0123456789'' ! n]
      else str_nat (n div 10) @ [''0123456789'' ! (n mod 10)])"

declare str_nat.simps [simp del]

definition str_int :: "int \<Rightarrow> string" where
  "str_int i = (if i < 0 then CHR ''-'' # str_nat (nat (- i)) else str_nat (nat i))"

definition digit_val :: "char \<Rightarrow> nat" where
  "digit_val c = of_char c - 48"

definition nat_of_digits :: "string \<Rightarrow> nat" where
  "nat_of_digits ds = foldl (\<lambda>n c. 10 * n + digit_val c) 0 ds"

definition plain_digits :: "string \<Rightarrow> bool" where
  "plain_digits ds = (if ds = [] then False else list_all is_digit ds)"

definition int_of_str :: "string \<Rightarrow> exn + int" where
  "int_of_str s =
     (if plain_digits s then Inr (int (nat_of_digits s))
      else case s of
             [] \<Rightarrow> Inl ValueError
           | c # ds \<Rightarrow>
               if c = CHR ''-'' \<and> plain_digits ds then Inr (- int (nat_of_digits ds))
               else Inl Unmodelled)"

text \<open>\<^verbatim>\<open>s.strip()\<close>, \<^verbatim>\<open>s.rstrip(cs)\<close>, \<^verbatim>\<open>s.lstrip(cs)\<close>, \<^verbatim>\<open>s.startswith(p)\<close> and \<^verbatim>\<open>s or d\<close>.\<close>

definition is_space :: "char \<Rightarrow> bool" where
  "is_space c =
     (c \<in> set [CHR 0x09, CHR 0x0A, CHR 0x0B, CHR 0x0C, CHR 0x0D,
               CHR 0x1C, CHR 0x1D, CHR 0x1E, CHR 0x1F, CHR 0x20])"

definition strip :: "string \<Rightarrow> string" where
  "strip s = rev (dropWhile is_space (rev (dropWhile is_space s)))"

definition rstrip :: "string \<Rightarrow> string \<Rightarrow> string" where
  "rstrip cs s = rev (dropWhile (\<lambda>c. c \<in> set cs) (rev s))"

definition lstrip :: "string \<Rightarrow> string \<Rightarrow> string" where
  "lstrip cs s = dropWhile (\<lambda>c. c \<in> set cs) s"

definition startswith :: "string \<Rightarrow> string \<Rightarrow> bool" where
  "startswith s p = (take (length p) s = p)"

definition or_else :: "string \<Rightarrow> string \<Rightarrow> string" where
  "or_else s d = (if s = [] then d else s)"

section \<open>Notifications and subscriptions\<close>

text \<open>
  The argument \<^verbatim>\<open>user_or_role\<close> is \<^verbatim>\<open>None\<close>, a lower-cased string, or an object (a role,
  a member, or the bare id object that the \<^verbatim>\<open>User\<close> converter falls back to):
  \<open>Object s m\<close> is an object whose \<^verbatim>\<open>str\<close> is \<open>s\<close> and whose attribute \<^verbatim>\<open>mention\<close>, when it
  has one, is \<open>m\<close>.
\<close>

datatype user_or_role = Object string "string option" | Str string

fun py_str :: "user_or_role option \<Rightarrow> string" where
  "py_str None = ''None''"
| "py_str (Some (Object s m)) = s"
| "py_str (Some (Str s)) = s"

fun parse_user_or_role :: "ctx \<Rightarrow> user_or_role option \<Rightarrow> string option" where
  "parse_user_or_role c None = Some (author_mention (ctx_author c))"
| "parse_user_or_role c (Some (Object s (Some m))) = Some m"
| "parse_user_or_role c (Some (Object s None)) = None"
| "parse_user_or_role c (Some (Str s)) =
     (if s \<in> set [''here'', ''everyone'', ''@here'', ''@everyone'']
      then Some (''@'' @ lstrip ''@'' s) else None)"

text \<open>\<open>entry d key\<close> is \<^verbatim>\<open>d[key]\<close> after \<^verbatim>\<open>if key not in d: d[key] = []\<close>, and
  \<open>with_default d key\<close> is the dict after that statement.\<close>

definition with_default :: "(string, string list) dict \<Rightarrow> string \<Rightarrow> (string, string list) dict" where
  "with_default d key = (if dict_in key d then d else dict_set d key [])"

definition entry :: "(string, string list) dict \<Rightarrow> string \<Rightarrow> string list" where
  "entry d key = (case dict_get d key of None \<Rightarrow> [] | Some ms \<Rightarrow> ms)"

definition notify :: "(string \<Rightarrow> string) \<Rightarrow> ctx \<Rightarrow> user_or_role option \<Rightarrow> bot \<Rightarrow> outcome" where
  "notify tr c user_or_role b =
     (case parse_user_or_role c user_or_role of
        None \<Rightarrow> raise (BadArgument (py_str user_or_role @ '' is not a valid role.'')) b
      | Some m \<Rightarrow>
          (case ctx_thread c of
             None \<Rightarrow> raise (AttributeError ''id'') b
           | Some t \<Rightarrow>
               let key = str_int (thread_id t);
                   squad = with_default (notification_squad b) key;
                   mentions = entry squad key
               in if m \<in> set mentions then
                    reply (format (tr ''{mention} is already going to be mentioned.'') [(''mention'', m)])
                      (\<lambda>d. \<lparr>title = None, description = d, color = error_color,
                            footer = None\<rparr>)
                      (b\<lparr>notification_squad := squad\<rparr>)
                  else
                    reply (format (tr ''{mention} will be mentioned on the next message received.'')
                             [(''mention'', m)])
                      (\<lambda>d. \<lparr>title = None, description = d, color = main_color,
                            footer = None\<rparr>)
                      (config_update
                         (b\<lparr>notification_squad := dict_set squad key (mentions @ [m])\<rparr>))))"

definition unnotify :: "(string \<Rightarrow> string) \<Rightarrow> ctx \<Rightarrow> user_or_role option \<Rightarrow> bot \<Rightarrow> outcome" where
  "unnotify tr c user_or_role b =
     (let m = (case parse_user_or_role c user_or_role of
                 None \<Rightarrow> ''`'' @ py_str user_or_role @ ''`''
               | Some m \<Rightarrow> m)
      in case ctx_thread c of
           None \<Rightarrow> raise (AttributeError ''id'') b
         | Some t \<Rightarrow>
             let key = str_int (thread_id t);
                 squad = with_default (notification_squad b) key;
                 mentions = entry squad key
             in if m \<in> set mentions then
                  reply (format (tr ''{mention} will no longer be notified.'') [(''mention'', m)])
                    (\<lambda>d. \<lparr>title = None, description = d, color = main_color,
                          footer = None\<rparr>)
                    (config_update
                       (b\<lparr>notification_squad := dict_set squad key (remove1 m mentions)\<rparr>))
                else
                  reply (format (tr ''{mention} does not have a pending notification.'')
                           [(''mention'', m)])
                    (\<lambda>d. \<lparr>title = None, description = d, color = error_color,
                          footer = None\<rparr>)
                    (b\<lparr>notification_squad := squad\<rparr>))"

definition subscribe :: "(string \<Rightarrow> string) \<Rightarrow> ctx \<Rightarrow> user_or_role option \<Rightarrow> bot \<Rightarrow> outcome" where
  "subscribe tr c user_or_role b =
     (case parse_user_or_role c user_or_role of
        None \<Rightarrow> raise (BadArgument (py_str user_or_role @ '' is not a valid role.'')) b
      | Some m \<Rightarrow>
          (case ctx_thread c of
             None \<Rightarrow> raise (AttributeError ''id'') b
           | Some t \<Rightarrow>
               let key = str_int (thread_id t);
                   subs = with_default (subscriptions b) key;
                   mentions = entry subs key
               in if m \<in> set mentions then
                    reply (format (tr ''{mention} is already subscribed to this thread.'') [(''mention'', m)])
                      (\<lambda>d. \<lparr>title = None, description = d, color = error_color,
                            footer = None\<rparr>)
                      (b\<lparr>subscriptions := subs\<rparr>)
                  else
                    reply (format (tr ''{mention} will now be notified of all messages received.'')
                             [(''mention'', m)])
                      (\<lambda>d. \<lparr>title = None, description = d, color = main_color,
                            footer = None\<rparr>)
                      (config_update
                         (b\<lparr>subscriptions := dict_set subs key (mentions @ [m])\<rparr>))))"

definition unsubscribe :: "(string \<Rightarrow> string) \<Rightarrow> ctx \<Rightarrow> user_or_role option \<Rightarrow> bot \<Rightarrow> outcome" where
  "unsubscribe tr c user_or_role b =
     (let m = (case parse_user_or_role c user_or_role of
                 None \<Rightarrow> ''`'' @ py_str user_or_role @ ''`''
               | Some m \<Rightarrow> m)
      in case ctx_thread c of
           None \<Rightarrow> raise (AttributeError ''id'') b
         | Some t \<Rightarrow>
             let key = str_int (thread_id t);
                 subs = with_default (subscriptions b) key;
                 mentions = entry subs key
             in if m \<in> set mentions then
                  reply (format (tr ''{mention} is now unsubscribed to this thread.'') [(''mention'', m)])
                    (\<lambda>d. \<lparr>title = None, description = d, color = main_color,
                          footer = None\<rparr>)
                    (config_update
                       (b\<lparr>subscriptions := dict_set subs key (remove1 m mentions)\<rparr>))
                else
                  reply (format (tr ''{mention} is not already subscribed to this thread.'')
                           [(''mention'', m)])
                    (\<lambda>d. \<lparr>title = None, description = d, color = error_color,
                          footer = None\<rparr>)
                    (b\<lparr>subscriptions := subs\<rparr>))"

section \<open>Contacting a user\<close>

text \<open>
  Modelled from the spec: the thread manager \<^verbatim>\<open>bot.threads\<close> of \<^verbatim>\<open>core.thread\<close> is not part
  of the module. A thread is a per-user channel: \<open>find_thread\<close> is
  \<^verbatim>\<open>threads.find(recipient=user)\<close>, the thread whose recipient has the user's id, and
  \<open>create_thread\<close> is \<^verbatim>\<open>threads.create(user, creator=..., category=...)\<close>, which registers
  a thread for the user; \<open>channel\<close> is the mention of the channel opened for it.
\<close>

definition find_thread :: "thread list \<Rightarrow> user \<Rightarrow> thread option" where
  "find_thread ts u = List.find (\<lambda>t. uid (recipient t) = uid u) ts"

definition create_thread :: "user \<Rightarrow> author \<Rightarrow> string option \<Rightarrow> string \<Rightarrow> thread" where
  "create_thread u a cat channel =
     \<lparr>thread_id = uid u, recipient = u, creator = a, category = cat,
      channel_mention = channel\<rparr>"

definition channel_send :: "string \<Rightarrow> embed \<Rightarrow> bot \<Rightarrow> outcome" where
  "channel_send ch e b = (Inr (), b\<lparr>sent := sent b @ [ChannelSend ch e]\<rparr>)"

text \<open>
  The body of \<^verbatim>\<open>contact\<close> assigns \<^verbatim>\<open>_\<close> in its last branch
  (\<^verbatim>\<open>sent_emoji, _ = await self.bot.retrieve_emoji()\<close>), after every embed of the
  function has been built. So \<^verbatim>\<open>_\<close> is a local variable of \<^verbatim>\<open>contact\<close>, and it is
  still unbound at each of the three places that call it: the local is \<open>None\<close> there.
  What follows the last send (the reaction, the sleep, deleting the command message)
  touches nothing of the bot that is modelled.
\<close>

definition contact :: "ctx \<Rightarrow> string option \<Rightarrow> string \<Rightarrow> user \<Rightarrow> bot \<Rightarrow> outcome" where
  "contact c cat channel u b =
     (let underscore = None in
      if is_bot u then
        (case call_local underscore ''_'' ''Cannot start a thread with a bot.'' of
           Inl e \<Rightarrow> raise e b
         | Inr d \<Rightarrow>
             send \<lparr>title = None, description = d, color = error_color, footer = None\<rparr> b)
      else
        (case find_thread (threads b) u of
           Some exists \<Rightarrow>
             (case call_local underscore ''_''
                     ''A thread for this user already exists in {mention}.'' of
                Inl e \<Rightarrow> raise e b
              | Inr t \<Rightarrow>
                  (case format t [(''mention'', channel_mention exists)] of
                     Inl e \<Rightarrow> raise e b
                   | Inr d \<Rightarrow>
                       channel_send (ctx_channel c)
                         \<lparr>title = None, description = d, color = error_color,
                          footer = None\<rparr> b))
         | None \<Rightarrow>
             (let t = create_thread u (ctx_author c) cat channel;
                  b' = b\<lparr>threads := threads b @ [t]\<rparr>
              in case call_local underscore ''_'' ''Created Thread'' of
                   Inl e \<Rightarrow> raise e b'
                 | Inr ttl \<Rightarrow>
                     (case call_local underscore ''_''
                             ''Thread started by {author_mention} for {user_mention}.'' of
                        Inl e \<Rightarrow> raise e b'
                      | Inr tmpl \<Rightarrow>
                          (case mention u of
                             None \<Rightarrow> raise (AttributeError ''mention'') b'
                           | Some um \<Rightarrow>
                               (case format tmpl
                                       [(''author_mention'', author_mention (ctx_author c)),
                                        (''user_mention'', um)] of
                                  Inl e \<Rightarrow> raise e b'
                                | Inr d \<Rightarrow>
                                    channel_send channel
                                      \<lparr>title = Some ttl, description = d,
                                       color = main_color, footer = None\<rparr> b'))))))"

section \<open>Blocking\<close>

subsection \<open>The list of blocked users\<close>

text \<open>
  \<open>get_user\<close> is the bot's cache lookup and \<open>fetch_user\<close> the API request, both reduced
  to the mention of the user they find; \<open>fetch_user\<close> gives \<open>None\<close> where the request
  raises \<^verbatim>\<open>discord.NotFound\<close>.
\<close>

fun blocked_mentions ::
  "(int \<Rightarrow> string option) \<Rightarrow> (string \<Rightarrow> string option) \<Rightarrow> (string, string) dict
     \<Rightarrow> exn + (string \<times> string) list" where
  "blocked_mentions get_user fetch_user [] = Inr []"
| "blocked_mentions get_user fetch_user ((uid_str, reason) # items) =
     (case int_of_str uid_str of
        Inl e \<Rightarrow> Inl e
      | Inr i \<Rightarrow>
          (let u = (case get_user i of
                      Some m \<Rightarrow> (m, reason)
                    | None \<Rightarrow>
                        (case fetch_user uid_str of
                           Some m \<Rightarrow> (m, reason)
                         | None \<Rightarrow> (uid_str, reason)))
           in case blocked_mentions get_user fetch_user items of
                Inl e \<Rightarrow> Inl e
              | Inr users \<Rightarrow> Inr (u # users)))"

definition blocked_line :: "(string \<Rightarrow> string) \<Rightarrow> string \<times> string \<Rightarrow> string" where
  "blocked_line tr u =
     fst u @ '' - '' @ or_else (snd u) (tr ''No Reason Provided'') @ [CHR 0x0A]"

text \<open>
  The loop keeps the list \<^verbatim>\<open>embeds\<close> and the variable \<^verbatim>\<open>embed\<close>, which is always the
  last element of the list and is extended in place. The state of the loop is the pair
  of the embeds before the last one and the last one.
\<close>

definition blocked_step ::
  "(string \<Rightarrow> string) \<Rightarrow> embed list \<times> embed \<Rightarrow> string \<times> string \<Rightarrow> embed list \<times> embed" where
  "blocked_step tr st u =
     (let line = blocked_line tr u; done = fst st; cur = snd st
      in if length (description cur) + length line > 2048 then
           (done @ [cur],
            \<lparr>title = Some (tr ''Blocked Users'' @ '' '' @ tr ''(Continued)''),
             description = line, color = main_color, footer = None\<rparr>)
         else (done, cur\<lparr>description := description cur @ line\<rparr>))"

definition blocked_embeds :: "(string \<Rightarrow> string) \<Rightarrow> (string \<times> string) list \<Rightarrow> embed list" where
  "blocked_embeds tr users =
     (let first = \<lparr>title = Some (tr ''Blocked Users''), description = [],
                   color = main_color, footer = None\<rparr>
      in if users = [] then
           [first\<lparr>description := tr ''Currently there are no blocked users.''\<rparr>]
         else
           (let st = foldl (blocked_step tr) ([], first) users in fst st @ [snd st]))"

definition blocked ::
  "(string \<Rightarrow> string) \<Rightarrow> (int \<Rightarrow> string option) \<Rightarrow> (string \<Rightarrow> string option) \<Rightarrow> bot \<Rightarrow> outcome" where
  "blocked tr get_user fetch_user b =
     (case blocked_mentions get_user fetch_user (blocked_users b) of
        Inl e \<Rightarrow> raise e b
      | Inr users \<Rightarrow> (Inr (), b\<lparr>sent := sent b @ [Paginator (blocked_embeds tr users)]\<rparr>))"

subsection \<open>Whitelist, block and unblock\<close>

text \<open>
  The three commands start alike: without a user argument the recipient of the current
  thread is taken, and \<open>target\<close> is \<open>None\<close> when there is neither. Then come
  \<^verbatim>\<open>getattr(user, "mention", f"`{user.id}`")\<close> and the same for \<^verbatim>\<open>name\<close>.
\<close>

definition target :: "ctx \<Rightarrow> user option \<Rightarrow> user option" where
  "target c user =
     (case user of
        Some u \<Rightarrow> Some u
      | None \<Rightarrow> (case ctx_thread c of Some t \<Rightarrow> Some (recipient t) | None \<Rightarrow> None))"

definition mention_of :: "user \<Rightarrow> string" where
  "mention_of u = (case mention u of Some m \<Rightarrow> m | None \<Rightarrow> ''`'' @ str_int (uid u) @ ''`'')"

definition name_of :: "user \<Rightarrow> string" where
  "name_of u = (case uname u of Some n \<Rightarrow> n | None \<Rightarrow> ''`'' @ str_int (uid u) @ ''`'')"

definition blocked_whitelist :: "(string \<Rightarrow> string) \<Rightarrow> ctx \<Rightarrow> user option \<Rightarrow> bot \<Rightarrow> outcome" where
  "blocked_whitelist tr c user b =
     (case target c user of
        None \<Rightarrow> (Inr (), b\<lparr>sent := sent b @ [SendHelp]\<rparr>)
      | Some u \<Rightarrow>
          (let m = mention_of u; key = str_int (uid u)
           in if key \<in> set (blocked_whitelisted_users b) then
                (case format (tr ''{mention} is no longer whitelisted.'') [(''mention'', m)] of
                   Inl e \<Rightarrow> raise e b
                 | Inr d \<Rightarrow>
                     send \<lparr>title = Some (tr ''Success''), description = d,
                           color = main_color, footer = None\<rparr>
                       (b\<lparr>blocked_whitelisted_users :=
                            remove1 key (blocked_whitelisted_users b)\<rparr>))
              else
                (let b1 = b\<lparr>blocked_whitelisted_users := blocked_whitelisted_users b @ [key]\<rparr>;
                     msg = (if dict_in key (blocked_users b1)
                            then (case dict_get (blocked_users b1) key of
                                    None \<Rightarrow> [] | Some r \<Rightarrow> or_else r [])
                            else []);
                     b2 = (if dict_in key (blocked_users b1)
                           then b1\<lparr>blocked_users := dict_pop (blocked_users b1) key\<rparr>
                           else b1);
                     b3 = config_update b2
                 in if startswith msg ''System Message: '' then
                      reply
                        (format
                           (tr (''{mention} was previously blocked internally for ''
                                @ ''\"{reason}\". {mention} is now whitelisted.''))
                           [(''mention'', m),
                            (''reason'', rstrip ''.'' (strip (drop 16 msg)))])
                        (\<lambda>d. \<lparr>title = Some ''Success'', description = d, color = main_color,
                              footer = None\<rparr>) b3
                    else
                      send \<lparr>title = Some ''Success'', description = m @ '' is now whitelisted.'',
                            color = main_color, footer = None\<rparr> b3)))"

text \<open>
  \<^verbatim>\<open>after\<close> is a parsed \<^verbatim>\<open>UserFriendlyTime\<close>: the rest of the argument text, the time it
  names and the time of the call. \<open>escape_markdown\<close> is the function of \<^verbatim>\<open>discord.utils\<close>
  and \<open>isoformat\<close> the method of \<^verbatim>\<open>datetime\<close>.
\<close>

record after =
  arg :: string
  dt :: int
  now :: int

text \<open>\<open>block_reason by aft\<close> is the reason that \<^verbatim>\<open>block\<close> stores: \<open>by\<close> is its first part, which
  names the author.\<close>

definition block_reason :: "(int \<Rightarrow> string) \<Rightarrow> string \<Rightarrow> after option \<Rightarrow> string" where
  "block_reason isoformat by aft =
     by
     @ (case aft of
          None \<Rightarrow> []
        | Some a \<Rightarrow>
            (if arg a = [] then [] else '' for `'' @ arg a @ ''`'')
            @ (if dt a > now a then '' until '' @ isoformat (dt a) else []))
     @ ''.''"

text \<open>The embed of \<^verbatim>\<open>block\<close> is built from the old entry before the new reason is stored.\<close>

definition block ::
  "(string \<Rightarrow> string) \<Rightarrow> (string \<Rightarrow> string) \<Rightarrow> (int \<Rightarrow> string) \<Rightarrow> ctx \<Rightarrow> user option
     \<Rightarrow> after option \<Rightarrow> bot \<Rightarrow> outcome" where
  "block tr escape_markdown isoformat c user aft b =
     (case target c user of
        None \<Rightarrow>
          (case aft of
             None \<Rightarrow> raise (MissingRequiredArgument ''user'') b
           | Some a \<Rightarrow> raise (BadArgument (''User \"'' @ arg a @ ''\" not found'')) b)
      | Some u \<Rightarrow>
          (let m = mention_of u; key = str_int (uid u)
           in if key \<in> set (blocked_whitelisted_users b) then
                reply (format (tr ''Cannot block {mention}, user is whitelisted.'')
                         [(''mention'', m)])
                  (\<lambda>d. \<lparr>title = Some (tr ''Error''), description = d, color = error_color,
                        footer = None\<rparr>) b
              else
                (let by = ''by '' @ escape_markdown (author_name (ctx_author c)) @ ''#''
                          @ author_discriminator (ctx_author c)
                 in if (case aft of None \<Rightarrow> False | Some a \<Rightarrow> CHR ''%'' \<in> set by) then
                      raise (BadArgument ''The reason contains illegal character \"%\".'') b
                    else
                      (let reason = block_reason isoformat by aft;
                           msg = (case dict_get (blocked_users b) key of
                                    None \<Rightarrow> [] | Some r \<Rightarrow> r);
                           rendered =
                             (if dict_in key (blocked_users b) \<and> msg \<noteq> [] then
                                format
                                  (tr (''{mention} was previously blocked {old_reason}.''
                                       @ [CHR 0x0A] @ ''{mention} is now blocked {reason}''))
                                  [(''mention'', m),
                                   (''old_reason'', rstrip ''.'' (strip msg)),
                                   (''reason'', reason)]
                              else
                                format (tr ''{mention} is now blocked {reason}'')
                                  [(''mention'', m), (''reason'', reason)])
                       in case rendered of
                            Inl e \<Rightarrow> raise e b
                          | Inr d \<Rightarrow>
                              send \<lparr>title = Some (tr ''Success''), description = d,
                                    color = main_color, footer = None\<rparr>
                                (config_update
                                   (b\<lparr>blocked_users :=
                                        dict_set (blocked_users b) key reason\<rparr>))))))"

text \<open>\<open>prefix\<close> is \<^verbatim>\<open>self.bot.prefix\<close>.\<close>

definition unblock :: "(string \<Rightarrow> string) \<Rightarrow> string \<Rightarrow> ctx \<Rightarrow> user option \<Rightarrow> bot \<Rightarrow> outcome" where
  "unblock tr prefix c user b =
     (case target c user of
        None \<Rightarrow> raise (MissingRequiredArgument ''user'') b
      | Some u \<Rightarrow>
          (let m = mention_of u; name = name_of u; key = str_int (uid u)
           in if dict_in key (blocked_users b) then
                (let msg = (case dict_get (blocked_users b) key of
                              None \<Rightarrow> [] | Some r \<Rightarrow> or_else r []);
                     b' = config_update (b\<lparr>blocked_users := dict_pop (blocked_users b) key\<rparr>)
                 in if startswith msg ''System Message: '' then
                      (case format
                              (tr (''{mention} was previously blocked internally {reason}.''
                                   @ [CHR 0x0A] @ ''{mention} is no longer blocked.''))
                              [(''mention'', m),
                               (''reason'',
                                or_else (rstrip ''.'' (strip (drop 16 msg))) ''no reason'')] of
                         Inl e \<Rightarrow> raise e b'
                       | Inr d \<Rightarrow>
                           reply
                             (format
                                (tr (''However, if the original system block reason ''
                                     @ ''still applies, {name} will be automatically ''
                                     @ ''blocked again. Use \"{self.bot.prefix}blocked ''
                                     @ ''whitelist {user.id}\" to whitelist the user.''))
                                [(''name'', name), (''prefix'', prefix),
                                 (''user_id'', str_int (uid u))])
                             (\<lambda>f. \<lparr>title = Some ''Success'', description = d,
                                   color = main_color, footer = Some f\<rparr>) b')
                    else
                      reply (format (tr ''{mention} is no longer blocked.'') [(''mention'', m)])
                        (\<lambda>d. \<lparr>title = Some (tr ''Success''), description = d,
                              color = main_color, footer = None\<rparr>) b')
              else
                reply (format (tr ''{mention} is not blocked.'') [(''mention'', m)])
                  (\<lambda>d. \<lparr>title = Some (tr ''Error''), description = d, color = error_color,
                        footer = None\<rparr>) b))"

section \<open>Enabling and disabling direct messages\<close>

definition enable :: "(string \<Rightarrow> string) \<Rightarrow> bot \<Rightarrow> outcome" where
  "enable tr b =
     send \<lparr>title = Some (tr ''Success''),
           description = tr ''Modmail will now accept all DM messages.'',
           color = main_color, footer = None\<rparr>
       (if dm_disabled b \<noteq> 0 then config_update (b\<lparr>dm_disabled := 0\<rparr>) else b)"

definition disable :: "(string \<Rightarrow> string) \<Rightarrow> bot \<Rightarrow> outcome" where
  "disable tr b =
     send \<lparr>title = Some (tr ''Success''),
           description = tr ''Modmail will not create any new threads.'',
           color = main_color, footer = None\<rparr>
       (if dm_disabled b < 1 then config_update (b\<lparr>dm_disabled := 1\<rparr>) else b)"

definition disable_all :: "(string \<Rightarrow> string) \<Rightarrow> bot \<Rightarrow> outcome" where
  "disable_all tr b =
     send \<lparr>title = Some (tr ''Success''),
           description = tr ''Modmail will not accept any DM messages.'',
           color = main_color, footer = None\<rparr>
       (if dm_disabled b \<noteq> 2 then config_update (b\<lparr>dm_disabled := 2\<rparr>) else b)"

section \<open>Properties of the state\<close>

text \<open>No blocked user is whitelisted.\<close>

definition disjoint :: "bot \<Rightarrow> bool" where
  "disjoint b = (fst ` set (blocked_users b) \<inter> set (blocked_whitelisted_users b) = {})"

text \<open>An error embed has the bot's error colour, a success embed its main colour.\<close>

definition error_embed :: "embed \<Rightarrow> bool" where
  "error_embed e = (color e = error_color)"

definition success_embed :: "embed \<Rightarrow> bool" where
  "success_embed e = (color e = main_color)"

section \<open>Sample values\<close>

definition empty_bot :: bot where
  "empty_bot =
     \<lparr>snippets = [], aliases = [], notification_squad = [], subscriptions = [],
      blocked_users = [], blocked_whitelisted_users = [], dm_disabled = 0, threads = [],
      updates = 0, sent = []\<rparr>"

definition moderator :: author where
  "moderator =
     \<lparr>author_name = ''mod'', author_discriminator = ''0001'', author_mention = ''<@7>''\<rparr>"

definition alice :: user where
  "alice = \<lparr>uid = 42, mention = Some ''<@42>'', uname = Some ''alice'', is_bot = False\<rparr>"

definition robot :: user where
  "robot = \<lparr>uid = 99, mention = Some ''<@99>'', uname = Some ''robot'', is_bot = True\<rparr>"

definition alice_thread :: thread where
  "alice_thread =
     \<lparr>thread_id = 42, recipient = alice, creator = moderator, category = None,
      channel_mention = ''<#500>''\<rparr>"

definition outside :: ctx where
  "outside = \<lparr>ctx_author = moderator, ctx_channel = ''<#1>'', ctx_thread = None\<rparr>"

definition inside :: ctx where
  "inside = \<lparr>ctx_author = moderator, ctx_channel = ''<#500>'', ctx_thread = Some alice_thread\<rparr>"

definition plain_not_found :: not_found where
  "plain_not_found name keys kind =
     \<lparr>title = Some ''Error'', description = kind @ '' '' @ name @ '' not found'',
      color = error_color, footer = None\<rparr>"

definition untranslated :: "string \<Rightarrow> string" where
  "untranslated t = t"

section \<open>Facts about dictionaries and strings\<close>

lemma dict_in_Nil [simp]: "\<not> dict_in k []"
  by (simp add: dict_in_def)

lemma dict_in_Cons [simp]: "dict_in k (kv # d) = (k = fst kv \<or> dict_in k d)"
  by (auto simp: dict_in_def)

lemma dict_in_get: "dict_in k d = (dict_get d k \<noteq> None)"
  by (induction d) (auto simp: dict_get_def)

lemma dict_set_new: "\<not> dict_in k d \<Longrightarrow> dict_set d k v = d @ [(k, v)]"
  by (induction d) auto

lemma dict_get_set: "dict_get (dict_set d k v) k' = (if k' = k then Some v else dict_get d k')"
  by (induction d) (auto simp: dict_get_def)

lemma dict_in_set: "dict_in k' (dict_set d k v) = (k' = k \<or> dict_in k' d)"
  by (induction d) (auto split: if_splits)

lemma dict_get_pop: "dict_get (dict_pop d k) k' = (if k' = k then None else dict_get d k')"
  by (induction d) (auto simp: dict_get_def dict_pop_def)

lemma dict_in_pop: "dict_in k' (dict_pop d k) = (k' \<noteq> k \<and> dict_in k' d)"
  by (induction d) (auto simp: dict_pop_def)

lemma dict_pop_absent: "\<not> dict_in k d \<Longrightarrow> dict_pop d k = d"
  by (induction d) (auto simp: dict_pop_def)

lemma dict_pop_set_new: "\<not> dict_in k d \<Longrightarrow> dict_pop (dict_set d k v) k = d"
  by (induction d) (auto simp: dict_pop_def)

lemma reply_Inr [simp]: "reply (Inr d) mk b = send (mk d) b"
  by (simp add: reply_def)

lemma reply_Inl [simp]: "reply (Inl e) mk b = raise e b"
  by (simp add: reply_def)

lemma fst_reply: "fst (reply r mk b) = (case r of Inl e \<Rightarrow> Inl e | Inr d \<Rightarrow> Inr ())"
  by (cases r) (simp_all add: send_def raise_def)

lemma snd_reply:
  "snd (reply r mk b) = b\<lparr>sent := sent b @ (case r of Inl e \<Rightarrow> [] | Inr d \<Rightarrow> [Send (mk d)])\<rparr>"
  by (cases r) (simp_all add: send_def raise_def)

text \<open>The untranslated messages of the snippet commands format for every name.\<close>

lemma untranslated_snippet_messages:
  "format (untranslated ''Snippet `{name}` already exists.'') [(''name'', n)]
     = Inr (''Snippet `'' @ n @ ''` already exists.'')"
  "format (untranslated ''An alias with the same name already exists: `{name}`.'')
     [(''name'', n)]
     = Inr (''An alias with the same name already exists: `'' @ n @ ''`.'')"
  "format (untranslated ''Snippet `{name}` is now deleted.'') [(''name'', n)]
     = Inr (''Snippet `'' @ n @ ''` is now deleted.'')"
  by (simp_all add: format_def field_value_def is_digit_def untranslated_def)

section \<open>Snippets\<close>

text \<open>
  C1. \<^verbatim>\<open>snippet_add\<close> with name \<open>n\<close> and value \<open>v\<close> returns. If \<open>n\<close> is a key of the
  snippets or of the aliases, or is longer than 120 characters, an error embed is sent,
  the snippets are unchanged and nothing is persisted; otherwise \<open>n\<close> is stored with
  \<open>v\<close> as a new last entry, the configuration is updated once and a success embed is
  sent. The two translated messages that carry the name have to format: \<open>d1\<close> and
  \<open>d2\<close> are their texts.
\<close>

theorem snippet_add_spec:
  assumes "format (tr ''Snippet `{name}` already exists.'') [(''name'', n)] = Inr d1"
    and "format (tr ''An alias with the same name already exists: `{name}`.'')
           [(''name'', n)] = Inr d2"
  shows "case snippet_add tr n v b of (r, b') \<Rightarrow>
           r = Inr () \<and>
           (if dict_in n (snippets b) \<or> dict_in n (aliases b) \<or> 120 < length n
            then snippets b' = snippets b \<and> updates b' = updates b \<and>
                 (\<exists>e. sent b' = sent b @ [Send e] \<and> error_embed e \<and>
                      title e = Some (tr ''Error''))
            else snippets b' = snippets b @ [(n, v)] \<and> dict_get (snippets b') n = Some v \<and>
                 updates b' = Suc (updates b) \<and>
                 (\<exists>e. sent b' = sent b @ [Send e] \<and> success_embed e))"
  using assms
  by (simp add: snippet_add_def send_def raise_def config_update_def dict_get_set
      dict_set_new [symmetric] error_embed_def success_embed_def)

theorem snippet_add_spec_witness:
  "format (untranslated ''Snippet `{name}` already exists.'') [(''name'', ''hello'')]
     = Inr ''Snippet `hello` already exists.'' \<and>
   format (untranslated ''An alias with the same name already exists: `{name}`.'')
     [(''name'', ''hello'')]
     = Inr ''An alias with the same name already exists: `hello`.'' \<and>
   (case snippet_add untranslated ''hello'' ''Hello there'' empty_bot of (r, b') \<Rightarrow>
      r = Inr () \<and> snippets b' = [(''hello'', ''Hello there'')] \<and> updates b' = 1 \<and>
      (\<exists>e. sent b' = [Send e] \<and> success_embed e)) \<and>
   (case snippet_add untranslated ''hello'' ''Good day''
           (empty_bot\<lparr>snippets := [(''hello'', ''Hello there'')]\<rparr>) of (r, b') \<Rightarrow>
      r = Inr () \<and> snippets b' = [(''hello'', ''Hello there'')] \<and> updates b' = 0 \<and>
      (\<exists>e. sent b' = [Send e] \<and> error_embed e))"
  using snippet_add_spec [where tr = untranslated and n = "''hello''"
      and ?d1.0 = "''Snippet `hello` already exists.''"
      and ?d2.0 = "''An alias with the same name already exists: `hello`.''"
      and v = "''Hello there''" and b = empty_bot]
    snippet_add_spec [where tr = untranslated and n = "''hello''"
      and ?d1.0 = "''Snippet `hello` already exists.''"
      and ?d2.0 = "''An alias with the same name already exists: `hello`.''"
      and v = "''Good day''" and b = "empty_bot\<lparr>snippets := [(''hello'', ''Hello there'')]\<rparr>"]
  by (auto simp add: format_def field_value_def is_digit_def empty_bot_def untranslated_def
      split: prod.splits)

text \<open>
  C6. For a name \<open>n\<close> that is no key of the snippets or the aliases and has at most 120
  characters, \<^verbatim>\<open>snippet_add\<close> followed by \<^verbatim>\<open>snippet_remove\<close> gives back the snippets
  there were, when the translated removal message formats. And \<^verbatim>\<open>snippet_remove\<close> of
  a name that is no key sends the not-found embed and changes nothing else.
\<close>

theorem snippet_add_remove:
  "(\<not> dict_in n (snippets b) \<and> \<not> dict_in n (aliases b) \<and> length n \<le> 120 \<and>
    format (tr ''Snippet `{name}` is now deleted.'') [(''name'', n)] = Inr d
    \<longrightarrow> fst (snippet_remove tr nf n (snd (snippet_add tr n v b))) = Inr () \<and>
        snippets (snd (snippet_remove tr nf n (snd (snippet_add tr n v b)))) = snippets b) \<and>
   (\<not> dict_in n (snippets b)
    \<longrightarrow> snippet_remove tr nf n b
          = (Inr (), b\<lparr>sent := sent b @ [Send (nf n (map fst (snippets b)) ''Snippet'')]\<rparr>))"
  by (simp add: snippet_add_def snippet_remove_def send_def raise_def config_update_def
      dict_in_set dict_pop_set_new)

theorem snippet_add_remove_witness:
  "\<not> dict_in ''hello'' (snippets empty_bot) \<and> \<not> dict_in ''hello'' (aliases empty_bot) \<and>
   length ''hello'' \<le> 120 \<and>
   format (untranslated ''Snippet `{name}` is now deleted.'') [(''name'', ''hello'')]
     = Inr ''Snippet `hello` is now deleted.'' \<and>
   snippets (snd (snippet_remove untranslated plain_not_found ''hello''
                    (snd (snippet_add untranslated ''hello'' ''Hello there'' empty_bot))))
     = snippets empty_bot \<and>
   snippet_remove untranslated plain_not_found ''hello'' empty_bot
     = (Inr (), empty_bot\<lparr>sent := [Send (plain_not_found ''hello'' [] ''Snippet'')]\<rparr>)"
  using snippet_add_remove [where tr = untranslated and n = "''hello''" and b = empty_bot
      and d = "''Snippet `hello` is now deleted.''" and nf = plain_not_found
      and v = "''Hello there''"]
  by (simp add: format_def field_value_def is_digit_def empty_bot_def untranslated_def)

text \<open>
  C9. \<^verbatim>\<open>snippet_edit\<close> of a name that is a key stores the new value and updates the
  configuration, but it does not complete: building the confirmation embed raises
  NameError for \<^verbatim>\<open>f_\<close>, and no embed is sent. Here for the snippet \<^verbatim>\<open>hello\<close>.
\<close>

theorem snippet_edit_raises:
  "snippet_edit untranslated plain_not_found ''hello'' ''Good day''
     (empty_bot\<lparr>snippets := [(''hello'', ''Hello there'')]\<rparr>)
   = (Inl (NameError ''f_''),
      empty_bot\<lparr>snippets := [(''hello'', ''Good day'')], updates := 1\<rparr>)"
  by (simp add: snippet_edit_def call_global_def module_globals_def raise_def
      config_update_def empty_bot_def)

lemma snippet_edit_present:
  "dict_in n (snippets b) \<Longrightarrow>
   snippet_edit tr nf n v b
   = (Inl (NameError ''f_''),
      b\<lparr>snippets := dict_set (snippets b) n v, updates := Suc (updates b)\<rparr>)"
  by (simp add: snippet_edit_def call_global_def module_globals_def raise_def
      config_update_def)

section \<open>Decimal strings\<close>

lemma digit_val_nth: "d < 10 \<Longrightarrow> digit_val (''0123456789'' ! d) = d"
proof -
  assume "d < 10"
  then have "d \<in> {0, 1, 2, 3, 4, 5, 6, 7, 8, 9}" by auto
  then show ?thesis by (auto simp: digit_val_def)
qed

lemma is_digit_nth: "d < 10 \<Longrightarrow> is_digit (''0123456789'' ! d)"
proof -
  assume "d < 10"
  then have "d \<in> {0, 1, 2, 3, 4, 5, 6, 7, 8, 9}" by auto
  then show ?thesis by (auto simp: is_digit_def)
qed

lemma nat_of_digits_snoc: "nat_of_digits (ds @ [c]) = 10 * nat_of_digits ds + digit_val c"
  by (simp add: nat_of_digits_def)

lemma nat_of_digits_str_nat: "nat_of_digits (str_nat n) = n"
proof (induction n rule: str_nat.induct)
  case (1 n)
  show ?case
  proof (cases "n < 10")
    case True
    then show ?thesis
      by (subst str_nat.simps) (simp add: nat_of_digits_def digit_val_nth)
  next
    case False
    with "1" have "nat_of_digits (str_nat (n div 10)) = n div 10" by simp
    with False show ?thesis
      by (subst str_nat.simps) (simp add: nat_of_digits_snoc digit_val_nth)
  qed
qed

lemma plain_digits_str_nat: "plain_digits (str_nat n)"
proof (induction n rule: str_nat.induct)
  case (1 n)
  show ?case
  proof (cases "n < 10")
    case True
    then show ?thesis
      by (subst str_nat.simps) (simp add: plain_digits_def is_digit_nth)
  next
    case False
    with "1" have "plain_digits (str_nat (n div 10))" by simp
    with False show ?thesis
      by (subst str_nat.simps) (simp add: plain_digits_def is_digit_nth split: if_splits)
  qed
qed

lemma int_of_str_str_int: "int_of_str (str_int i) = Inr i"
proof (cases "i < 0")
  case True
  have "\<not> plain_digits (CHR ''-'' # ds)" for ds
    by (simp add: plain_digits_def is_digit_def)
  with True show ?thesis
    by (simp add: str_int_def int_of_str_def plain_digits_str_nat nat_of_digits_str_nat)
next
  case False
  then show ?thesis
    by (simp add: str_int_def int_of_str_def plain_digits_str_nat nat_of_digits_str_nat)
qed

lemma str_int_inject: "str_int i = str_int j \<longleftrightarrow> i = j"
proof
  assume "str_int i = str_int j"
  then have "int_of_str (str_int i) = int_of_str (str_int j)" by simp
  then show "i = j" by (simp add: int_of_str_str_int)
qed simp

lemma str_int_42: "str_int 42 = ''42''"
  by (simp add: str_int_def str_nat.simps)

section \<open>Enabling and disabling\<close>

text \<open>
  C3. \<^verbatim>\<open>enable\<close> leaves \<open>dm_disabled\<close> at 0, \<^verbatim>\<open>disable all\<close> at 2, and \<^verbatim>\<open>disable\<close> sets it
  to 1 when it was below 1 and keeps it otherwise, so that 2 stays 2. A value among 0, 1
  and 2 stays among them under each command. Each command returns after sending one
  embed, a success embed, whatever the value was.
\<close>

theorem dm_disabled_transitions:
  "dm_disabled (snd (enable tr b)) = 0 \<and>
   dm_disabled (snd (disable tr b)) = (if dm_disabled b < 1 then 1 else dm_disabled b) \<and>
   dm_disabled (snd (disable_all tr b)) = 2 \<and>
   (dm_disabled b = 2 \<longrightarrow> dm_disabled (snd (disable tr b)) = 2) \<and>
   (dm_disabled b \<in> {0, 1, 2} \<longrightarrow>
      dm_disabled (snd (enable tr b)) \<in> {0, 1, 2} \<and>
      dm_disabled (snd (disable tr b)) \<in> {0, 1, 2} \<and>
      dm_disabled (snd (disable_all tr b)) \<in> {0, 1, 2}) \<and>
   (\<exists>e1 e2 e3.
      fst (enable tr b) = Inr () \<and> sent (snd (enable tr b)) = sent b @ [Send e1] \<and>
      fst (disable tr b) = Inr () \<and> sent (snd (disable tr b)) = sent b @ [Send e2] \<and>
      fst (disable_all tr b) = Inr () \<and> sent (snd (disable_all tr b)) = sent b @ [Send e3] \<and>
      success_embed e1 \<and> success_embed e2 \<and> success_embed e3 \<and>
      title e1 = Some (tr ''Success'') \<and> title e2 = Some (tr ''Success'') \<and>
      title e3 = Some (tr ''Success''))"
  by (simp add: enable_def disable_def disable_all_def send_def config_update_def
      success_embed_def)

theorem dm_disabled_transitions_witness:
  "dm_disabled (empty_bot\<lparr>dm_disabled := 2\<rparr>) = 2 \<and>
   dm_disabled (empty_bot\<lparr>dm_disabled := 2\<rparr>) \<in> {0, 1, 2} \<and>
   dm_disabled (snd (disable untranslated (empty_bot\<lparr>dm_disabled := 2\<rparr>))) = 2 \<and>
   dm_disabled (snd (enable untranslated (empty_bot\<lparr>dm_disabled := 2\<rparr>))) = 0 \<and>
   dm_disabled (snd (disable_all untranslated (empty_bot\<lparr>dm_disabled := 2\<rparr>))) \<in> {0, 1, 2}"
  using dm_disabled_transitions [of untranslated "empty_bot\<lparr>dm_disabled := 2\<rparr>"]
  by (simp add: empty_bot_def)

section \<open>Mentions\<close>

text \<open>
  C8. \<^verbatim>\<open>parse_user_or_role\<close> gives the author's mention for \<^verbatim>\<open>None\<close>, the object's own
  mention for an object that has one, \<^verbatim>\<open>@here\<close> or \<^verbatim>\<open>@everyone\<close> for the four strings
  \<^verbatim>\<open>here\<close>, \<^verbatim>\<open>@here\<close>, \<^verbatim>\<open>everyone\<close>, \<^verbatim>\<open>@everyone\<close>, and \<^verbatim>\<open>None\<close> for every other string.
\<close>

theorem parse_user_or_role_spec:
  "parse_user_or_role c None = Some (author_mention (ctx_author c)) \<and>
   parse_user_or_role c (Some (Object s (Some m))) = Some m \<and>
   parse_user_or_role c (Some (Str ''here'')) = Some ''@here'' \<and>
   parse_user_or_role c (Some (Str ''@here'')) = Some ''@here'' \<and>
   parse_user_or_role c (Some (Str ''everyone'')) = Some ''@everyone'' \<and>
   parse_user_or_role c (Some (Str ''@everyone'')) = Some ''@everyone'' \<and>
   (t \<notin> {''here'', ''everyone'', ''@here'', ''@everyone''} \<longrightarrow>
      parse_user_or_role c (Some (Str t)) = None)"
  by (simp add: lstrip_def)

theorem parse_user_or_role_spec_witness:
  "''moderators'' \<notin> {''here'', ''everyone'', ''@here'', ''@everyone''} \<and>
   parse_user_or_role inside (Some (Str ''moderators'')) = None \<and>
   parse_user_or_role inside None = Some ''<@7>''"
  using parse_user_or_role_spec [of inside _ _ "''moderators''"]
  by (simp add: inside_def moderator_def)

section \<open>Contacting a user\<close>

text \<open>
  C4. \<^verbatim>\<open>contact\<close> on a user that is a bot creates no thread, but it sends no error
  embed either: building the embed raises UnboundLocalError for \<^verbatim>\<open>_\<close>.
\<close>

theorem contact_bot_raises:
  "contact outside None ''<#501>'' robot empty_bot = (Inl (UnboundLocalError ''_''), empty_bot)"
  by (simp add: contact_def call_local_def raise_def robot_def)

text \<open>
  The same holds of every call: \<^verbatim>\<open>contact\<close> raises UnboundLocalError and sends nothing.
  It creates no thread for a bot or for a user who has one, and otherwise registers
  exactly one thread, for that user and by the author, before it raises.
\<close>

lemma contact_always_raises:
  "fst (contact c cat ch u b) = Inl (UnboundLocalError ''_'') \<and>
   sent (snd (contact c cat ch u b)) = sent b \<and>
   threads (snd (contact c cat ch u b))
     = (if is_bot u then threads b
        else case find_thread (threads b) u of
               Some t \<Rightarrow> threads b
             | None \<Rightarrow> threads b @ [create_thread u (ctx_author c) cat ch])"
  by (simp add: contact_def call_local_def raise_def split: option.splits)

section \<open>Unblocking\<close>

text \<open>
  C7. \<^verbatim>\<open>unblock\<close> of a user whose id is a key of the blocked users, blocked by the
  system, with untranslated messages: the user is removed and the configuration
  updated, but no success embed is sent, since formatting the footer raises KeyError
  for \<^verbatim>\<open>self\<close>.
\<close>

theorem unblock_system_raises:
  "unblock untranslated ''?'' outside (Some alice)
     (empty_bot\<lparr>blocked_users := [(''42'', ''System Message: New Account.'')]\<rparr>)
   = (Inl (KeyError ''self''), empty_bot\<lparr>updates := 1\<rparr>)"
  by (simp add: unblock_def target_def alice_def mention_of_def name_of_def str_int_def
      str_nat.simps dict_get_def dict_pop_def or_else_def startswith_def strip_def
      rstrip_def is_space_def format_def field_value_def is_digit_def untranslated_def
      raise_def config_update_def empty_bot_def)

text \<open>So it is for every user whose stored reason starts with \<^verbatim>\<open>System Message: \<close>.\<close>

lemma unblock_system_message:
  assumes "target c user = Some u"
    and "dict_get (blocked_users b) (str_int (uid u)) = Some r"
    and "startswith r ''System Message: ''"
  shows "unblock untranslated pre c user b
         = (Inl (KeyError ''self''),
            b\<lparr>blocked_users := dict_pop (blocked_users b) (str_int (uid u)),
              updates := Suc (updates b)\<rparr>)"
proof -
  from assms(3) have "r \<noteq> []" by (auto simp: startswith_def)
  with assms show ?thesis
    by (simp add: unblock_def Let_def dict_in_get or_else_def format_def field_value_def
        is_digit_def untranslated_def raise_def config_update_def)
qed

text \<open>
  What \<^verbatim>\<open>unblock\<close> does on the other paths. For a user who is no key of the blocked
  users it sends the error embed and changes nothing else. For a user who is a key the
  entry is popped and the configuration updated, whatever is raised afterwards; and
  when the stored reason is not a system message, the success embed is sent.
\<close>

lemma unblock_not_blocked:
  assumes "target c user = Some u" and "\<not> dict_in (str_int (uid u)) (blocked_users b)"
    and "format (tr ''{mention} is not blocked.'') [(''mention'', mention_of u)] = Inr d"
  shows "unblock tr pre c user b
         = (Inr (), b\<lparr>sent := sent b @ [Send \<lparr>title = Some (tr ''Error''), description = d,
                                             color = error_color, footer = None\<rparr>]\<rparr>)"
  using assms by (simp add: unblock_def Let_def send_def)

lemma unblock_removes:
  assumes "target c user = Some u" and "dict_in (str_int (uid u)) (blocked_users b)"
  shows "blocked_users (snd (unblock tr pre c user b))
           = dict_pop (blocked_users b) (str_int (uid u)) \<and>
         updates (snd (unblock tr pre c user b)) = Suc (updates b)"
  using assms
  by (simp add: unblock_def Let_def raise_def snd_reply config_update_def split: sum.splits)

lemma unblock_plain_reason:
  assumes "target c user = Some u" and "dict_get (blocked_users b) (str_int (uid u)) = Some r"
    and "\<not> startswith (or_else r []) ''System Message: ''"
    and "format (tr ''{mention} is no longer blocked.'') [(''mention'', mention_of u)] = Inr d"
  shows "unblock tr pre c user b
         = (Inr (),
            b\<lparr>blocked_users := dict_pop (blocked_users b) (str_int (uid u)),
              updates := Suc (updates b),
              sent := sent b @ [Send \<lparr>title = Some (tr ''Success''), description = d,
                                       color = main_color, footer = None\<rparr>]\<rparr>)"
  using assms
  by (simp add: unblock_def Let_def send_def config_update_def dict_in_get)

section \<open>Notifications and subscriptions\<close>

lemma dict_get_with_default:
  "k \<noteq> key \<Longrightarrow> dict_get (with_default d key) k = dict_get d k"
  by (simp add: with_default_def dict_get_set)

text \<open>
  C5. In a thread \<open>t\<close>, each of \<^verbatim>\<open>notify\<close>, \<^verbatim>\<open>unnotify\<close>, \<^verbatim>\<open>subscribe\<close> and \<^verbatim>\<open>unsubscribe\<close>,
  whatever its argument and whether it returns or raises, changes of the bot at most
  its own map (\<open>notification_squad\<close> for the first two, \<open>subscriptions\<close> for the other
  two), the count of updates and the messages sent; and in its own map the entry of
  every key other than \<^verbatim>\<open>str(thread.id)\<close> is as before, so the entry of every other
  thread id is.
\<close>

theorem notification_frame:
  assumes "ctx_thread c = Some t"
  shows
    "(\<forall>op \<in> {notify, unnotify}.
        snd (op tr c a b)
          = b\<lparr>notification_squad := notification_squad (snd (op tr c a b)),
              updates := updates (snd (op tr c a b)), sent := sent (snd (op tr c a b))\<rparr> \<and>
        (\<forall>k. k \<noteq> str_int (thread_id t) \<longrightarrow>
           dict_get (notification_squad (snd (op tr c a b))) k
             = dict_get (notification_squad b) k) \<and>
        (\<forall>i. i \<noteq> thread_id t \<longrightarrow>
           dict_get (notification_squad (snd (op tr c a b))) (str_int i)
             = dict_get (notification_squad b) (str_int i))) \<and>
     (\<forall>op \<in> {subscribe, unsubscribe}.
        snd (op tr c a b)
          = b\<lparr>subscriptions := subscriptions (snd (op tr c a b)),
              updates := updates (snd (op tr c a b)), sent := sent (snd (op tr c a b))\<rparr> \<and>
        (\<forall>k. k \<noteq> str_int (thread_id t) \<longrightarrow>
           dict_get (subscriptions (snd (op tr c a b))) k = dict_get (subscriptions b) k) \<and>
        (\<forall>i. i \<noteq> thread_id t \<longrightarrow>
           dict_get (subscriptions (snd (op tr c a b))) (str_int i)
             = dict_get (subscriptions b) (str_int i)))"
proof -
  have n: "snd (notify tr c a b)
          = b\<lparr>notification_squad := notification_squad (snd (notify tr c a b)),
              updates := updates (snd (notify tr c a b)), sent := sent (snd (notify tr c a b))\<rparr> \<and>
        (\<forall>k. k \<noteq> str_int (thread_id t) \<longrightarrow>
           dict_get (notification_squad (snd (notify tr c a b))) k
             = dict_get (notification_squad b) k)"
    using assms
    by (simp add: notify_def Let_def raise_def snd_reply config_update_def dict_get_set
        dict_get_with_default split: option.splits)
  have u: "snd (unnotify tr c a b)
          = b\<lparr>notification_squad := notification_squad (snd (unnotify tr c a b)),
              updates := updates (snd (unnotify tr c a b)), sent := sent (snd (unnotify tr c a b))\<rparr> \<and>
        (\<forall>k. k \<noteq> str_int (thread_id t) \<longrightarrow>
           dict_get (notification_squad (snd (unnotify tr c a b))) k
             = dict_get (notification_squad b) k)"
    using assms
    by (simp add: unnotify_def Let_def raise_def snd_reply config_update_def dict_get_set
        dict_get_with_default split: option.splits)
  have s: "snd (subscribe tr c a b)
          = b\<lparr>subscriptions := subscriptions (snd (subscribe tr c a b)),
              updates := updates (snd (subscribe tr c a b)), sent := sent (snd (subscribe tr c a b))\<rparr> \<and>
        (\<forall>k. k \<noteq> str_int (thread_id t) \<longrightarrow>
           dict_get (subscriptions (snd (subscribe tr c a b))) k
             = dict_get (subscriptions b) k)"
    using assms
    by (simp add: subscribe_def Let_def raise_def snd_reply config_update_def dict_get_set
        dict_get_with_default split: option.splits)
  have v: "snd (unsubscribe tr c a b)
          = b\<lparr>subscriptions := subscriptions (snd (unsubscribe tr c a b)),
              updates := updates (snd (unsubscribe tr c a b)), sent := sent (snd (unsubscribe tr c a b))\<rparr> \<and>
        (\<forall>k. k \<noteq> str_int (thread_id t) \<longrightarrow>
           dict_get (subscriptions (snd (unsubscribe tr c a b))) k
             = dict_get (subscriptions b) k)"
    using assms
    by (simp add: unsubscribe_def Let_def raise_def snd_reply config_update_def dict_get_set
        dict_get_with_default split: option.splits)
  from n u s v show ?thesis
    by (simp add: str_int_inject)
qed

theorem notification_frame_witness:
  "ctx_thread inside = Some alice_thread \<and>
   notification_squad (snd (notify untranslated inside None
      (empty_bot\<lparr>notification_squad := [(''7'', [''@here''])]\<rparr>)))
     = [(''7'', [''@here'']), (''42'', [''<@7>''])] \<and>
   dict_get (notification_squad (snd (notify untranslated inside None
      (empty_bot\<lparr>notification_squad := [(''7'', [''@here''])]\<rparr>)))) (str_int 7)
     = Some [''@here''] \<and>
   subscriptions (snd (notify untranslated inside None
      (empty_bot\<lparr>notification_squad := [(''7'', [''@here''])]\<rparr>))) = []"
  using notification_frame [where c = inside and t = alice_thread and tr = untranslated
      and a = None and b = "empty_bot\<lparr>notification_squad := [(''7'', [''@here''])]\<rparr>"]
  by (simp add: inside_def alice_thread_def moderator_def empty_bot_def untranslated_def
      notify_def str_int_def str_nat.simps with_default_def entry_def dict_get_def
      format_def field_value_def is_digit_def send_def config_update_def)

section \<open>Blocking and the whitelist\<close>

lemma disjoint_iff:
  "disjoint b = (\<forall>k \<in> set (blocked_whitelisted_users b). \<not> dict_in k (blocked_users b))"
  by (auto simp: disjoint_def dict_in_def)

lemma block_disjoint: "disjoint b \<Longrightarrow> disjoint (snd (block tr em isof c user aft b))"
  by (auto simp add: block_def Let_def raise_def send_def snd_reply config_update_def
      disjoint_iff dict_in_set split: option.splits sum.splits)

lemma unblock_disjoint: "disjoint b \<Longrightarrow> disjoint (snd (unblock tr pre c user b))"
  by (simp add: unblock_def Let_def raise_def snd_reply config_update_def disjoint_iff
      dict_in_pop split: option.splits sum.splits)

lemma blocked_whitelist_disjoint:
  "disjoint b \<Longrightarrow> disjoint (snd (blocked_whitelist tr c user b))"
  by (auto simp: blocked_whitelist_def Let_def raise_def send_def snd_reply config_update_def
      disjoint_iff dict_in_pop split: option.splits sum.splits dest: notin_set_remove1)

text \<open>
  C2. Each of \<^verbatim>\<open>block\<close>, \<^verbatim>\<open>unblock\<close> and \<^verbatim>\<open>blocked whitelist\<close> keeps the blocked users and
  the whitelist disjoint, whatever its arguments and whether it returns or raises.
  \<^verbatim>\<open>block\<close> of a whitelisted user changes neither collection and persists nothing, and
  sends the error embed when its translated message formats to \<open>d\<close>. \<^verbatim>\<open>blocked whitelist\<close>
  of a user who is not whitelisted puts the user on the whitelist and leaves the user
  no key of the blocked users.
\<close>

theorem block_whitelist_exclusive:
  "(disjoint b \<longrightarrow>
      disjoint (snd (block tr em isof c user aft b)) \<and>
      disjoint (snd (unblock tr pre c user b)) \<and>
      disjoint (snd (blocked_whitelist tr c user b))) \<and>
   (target c user = Some u \<and> str_int (uid u) \<in> set (blocked_whitelisted_users b) \<longrightarrow>
      blocked_users (snd (block tr em isof c user aft b)) = blocked_users b \<and>
      blocked_whitelisted_users (snd (block tr em isof c user aft b))
        = blocked_whitelisted_users b \<and>
      updates (snd (block tr em isof c user aft b)) = updates b \<and>
      (format (tr ''Cannot block {mention}, user is whitelisted.'')
         [(''mention'', mention_of u)] = Inr d \<longrightarrow>
       block tr em isof c user aft b
         = (Inr (), b\<lparr>sent := sent b @ [Send \<lparr>title = Some (tr ''Error''), description = d,
                                             color = error_color, footer = None\<rparr>]\<rparr>))) \<and>
   (target c user = Some u \<and> str_int (uid u) \<notin> set (blocked_whitelisted_users b) \<longrightarrow>
      str_int (uid u) \<in> set (blocked_whitelisted_users (snd (blocked_whitelist tr c user b))) \<and>
      \<not> dict_in (str_int (uid u)) (blocked_users (snd (blocked_whitelist tr c user b))))"
proof (intro conjI impI)
  assume "target c user = Some u \<and> str_int (uid u) \<notin> set (blocked_whitelisted_users b)"
  then show "str_int (uid u) \<in> set (blocked_whitelisted_users (snd (blocked_whitelist tr c user b)))"
    and "\<not> dict_in (str_int (uid u)) (blocked_users (snd (blocked_whitelist tr c user b)))"
    by (simp_all add: blocked_whitelist_def Let_def send_def snd_reply config_update_def
        dict_in_pop)
next
  assume w: "target c user = Some u \<and> str_int (uid u) \<in> set (blocked_whitelisted_users b)"
  then show "blocked_users (snd (block tr em isof c user aft b)) = blocked_users b"
    and "blocked_whitelisted_users (snd (block tr em isof c user aft b))
        = blocked_whitelisted_users b"
    and "updates (snd (block tr em isof c user aft b)) = updates b"
    by (simp_all add: block_def Let_def snd_reply)
  assume "format (tr ''Cannot block {mention}, user is whitelisted.'')
         [(''mention'', mention_of u)] = Inr d"
  with w show "block tr em isof c user aft b
         = (Inr (), b\<lparr>sent := sent b @ [Send \<lparr>title = Some (tr ''Error''), description = d,
                                             color = error_color, footer = None\<rparr>]\<rparr>)"
    by (simp add: block_def Let_def send_def)
qed (simp_all add: block_disjoint unblock_disjoint blocked_whitelist_disjoint)

theorem block_whitelist_exclusive_witness:
  "disjoint (empty_bot\<lparr>blocked_users := [(''42'', ''by mod#0001.'')]\<rparr>) \<and>
   target outside (Some alice) = Some alice \<and>
   str_int (uid alice) \<notin> set (blocked_whitelisted_users
      (empty_bot\<lparr>blocked_users := [(''42'', ''by mod#0001.'')]\<rparr>)) \<and>
   disjoint (snd (blocked_whitelist untranslated outside (Some alice)
      (empty_bot\<lparr>blocked_users := [(''42'', ''by mod#0001.'')]\<rparr>))) \<and>
   blocked_whitelisted_users (snd (blocked_whitelist untranslated outside (Some alice)
      (empty_bot\<lparr>blocked_users := [(''42'', ''by mod#0001.'')]\<rparr>))) = [''42''] \<and>
   blocked_users (snd (blocked_whitelist untranslated outside (Some alice)
      (empty_bot\<lparr>blocked_users := [(''42'', ''by mod#0001.'')]\<rparr>))) = [] \<and>
   str_int (uid alice) \<in> set (blocked_whitelisted_users
      (empty_bot\<lparr>blocked_whitelisted_users := [''42'']\<rparr>)) \<and>
   format (untranslated ''Cannot block {mention}, user is whitelisted.'')
     [(''mention'', mention_of alice)] = Inr ''Cannot block <@42>, user is whitelisted.'' \<and>
   block untranslated untranslated str_int outside (Some alice) None
      (empty_bot\<lparr>blocked_whitelisted_users := [''42'']\<rparr>)
     = (Inr (), empty_bot\<lparr>blocked_whitelisted_users := [''42''],
          sent := [Send \<lparr>title = Some ''Error'',
                          description = ''Cannot block <@42>, user is whitelisted.'',
                          color = error_color, footer = None\<rparr>]\<rparr>)"
  using block_whitelist_exclusive [where b = "empty_bot\<lparr>blocked_users := [(''42'', ''by mod#0001.'')]\<rparr>"
      and c = outside and user = "Some alice" and u = alice and tr = untranslated]
    block_whitelist_exclusive [where b = "empty_bot\<lparr>blocked_whitelisted_users := [''42'']\<rparr>"
      and c = outside and user = "Some alice" and u = alice and tr = untranslated
      and d = "''Cannot block <@42>, user is whitelisted.''" and em = untranslated
      and isof = str_int and aft = None]
  by (simp add: disjoint_def empty_bot_def target_def alice_def str_int_def str_nat.simps
      blocked_whitelist_def mention_of_def dict_get_def dict_pop_def or_else_def
      startswith_def send_def config_update_def format_def field_value_def is_digit_def
      untranslated_def)

section \<open>The list of blocked users\<close>

text \<open>
  C10. One blocked user whose reason has 2100 characters: the listing has a second
  embed whose description is the whole line, 2106 characters long, above the bound of
  2048 that the loop tests for.
\<close>

theorem blocked_long_reason:
  "blocked untranslated (\<lambda>i. None) (\<lambda>s. None)
     (empty_bot\<lparr>blocked_users := [(''42'', replicate 2100 (CHR ''x''))]\<rparr>)
   = (Inr (),
      empty_bot\<lparr>blocked_users := [(''42'', replicate 2100 (CHR ''x''))],
        sent := [Paginator
          [\<lparr>title = Some ''Blocked Users'', description = [], color = main_color,
            footer = None\<rparr>,
           \<lparr>title = Some ''Blocked Users (Continued)'',
            description = ''42 - '' @ replicate 2100 (CHR ''x'') @ [CHR 0x0A],
            color = main_color, footer = None\<rparr>]]\<rparr>) \<and>
   length (''42 - '' @ replicate 2100 (CHR ''x'') @ [CHR 0x0A]) = 2106"
  by (simp add: blocked_def int_of_str_def plain_digits_def is_digit_def blocked_embeds_def
      blocked_step_def blocked_line_def or_else_def untranslated_def empty_bot_def)

text \<open>
  When every line of the listing has at most 2048 characters, and so has the translated
  text for an empty list, every description of the listing has at most 2048.
\<close>

lemma blocked_step_bounded:
  assumes "length (blocked_line tr u) \<le> 2048"
    and "list_all (\<lambda>e. length (description e) \<le> 2048) (fst st @ [snd st])"
  shows "list_all (\<lambda>e. length (description e) \<le> 2048)
           (fst (blocked_step tr st u) @ [snd (blocked_step tr st u)])"
  using assms by (simp add: blocked_step_def Let_def)

lemma blocked_fold_bounded:
  assumes "list_all (\<lambda>u. length (blocked_line tr u) \<le> 2048) users"
    and "list_all (\<lambda>e. length (description e) \<le> 2048) (fst st @ [snd st])"
  shows "list_all (\<lambda>e. length (description e) \<le> 2048)
           (fst (foldl (blocked_step tr) st users) @ [snd (foldl (blocked_step tr) st users)])"
  using assms
proof (induction users arbitrary: st)
  case Nil
  then show ?case by simp
next
  case (Cons u users)
  from Cons.prems have "list_all (\<lambda>e. length (description e) \<le> 2048)
      (fst (blocked_step tr st u) @ [snd (blocked_step tr st u)])"
    by (intro blocked_step_bounded) simp_all
  with Cons.IH [of "blocked_step tr st u"] Cons.prems show ?case by simp
qed

lemma blocked_embeds_bounded:
  assumes "list_all (\<lambda>u. length (blocked_line tr u) \<le> 2048) users"
    and "length (tr ''Currently there are no blocked users.'') \<le> 2048"
  shows "list_all (\<lambda>e. length (description e) \<le> 2048) (blocked_embeds tr users)"
  using assms blocked_fold_bounded [of tr users
      "([], \<lparr>title = Some (tr ''Blocked Users''), description = [], color = main_color,
             footer = None\<rparr>)"]
  by (simp add: blocked_embeds_def Let_def)


end
